theory Spec2Isabelle
  imports Complex_Main
begin

section \<open>Values shared by the descriptor records\<close>

text \<open>
  The stack of \<^verbatim>\<open>scalable-backend-stack.ts\<close> is a tree of configuration records.
  A TypeScript object reference to a construct (\<^verbatim>\<open>vpc\<close>, \<^verbatim>\<open>albSecurityGroup\<close>, ...)
  is modelled by the identifier the construct was created with, the second argument
  of its constructor. Strings whose value only the provisioning library knows
  (\<^verbatim>\<open>this.account\<close>, \<^verbatim>\<open>alb.loadBalancerDnsName\<close>) stay symbolic.
\<close>

datatype construct_ref = Ref string

datatype str_part =
    Lit string
  | ThisAccount
  | ThisRegion
  | Attr construct_ref string

type_synonym cdk_string = "str_part list"

datatype RemovalPolicy = DESTROY | RETAIN | SNAPSHOT | RETAIN_ON_UPDATE_OR_DELETE

datatype Duration = Duration_seconds nat | Duration_minutes nat

text \<open>
  What a run can end with: the \<^verbatim>\<open>TypeError\<close> of the language for the call of a
  member that an object does not have, the two refusals of the provisioning library
  that the constructor can meet (a second construct under a name already taken in its
  scope, a step scaling policy with fewer than two intervals), and a diagnostic of the
  synthesizer.
\<close>

datatype error =
    TypeError string
  | DuplicateConstruct string
  | TooFewIntervals nat
  | Diagnostic string

datatype SubnetType = PRIVATE_ISOLATED | PRIVATE_WITH_EGRESS | PUBLIC

record subnet_selection =
  sel_subnetType :: SubnetType

datatype InstanceClass = T2 | T3 | M5
datatype InstanceSize = NANO | MICRO | SMALL | MEDIUM | LARGE
datatype InstanceType = InstanceType_of InstanceClass InstanceSize

section \<open>Network layout\<close>

record subnet_configuration =
  sc_cidrMask :: nat
  sc_name :: string
  sc_subnetType :: SubnetType

record vpc =
  vpc_maxAzs :: nat
  vpc_natGateways :: nat
  vpc_subnetConfiguration :: "subnet_configuration list"

section \<open>Traffic boundaries\<close>

datatype Peer = Peer_anyIpv4 | Peer_securityGroup construct_ref

datatype Port = Port_tcp nat | Port_allTraffic

record ingress_rule =
  ir_peer :: Peer
  ir_port :: Port
  ir_description :: "string option"

record security_group =
  sg_vpc :: construct_ref
  sg_description :: string
  sg_allowAllOutbound :: bool
  sg_ingressRules :: "ingress_rule list"

text \<open>\<^verbatim>\<open>sg.addIngressRule(peer, port, description)\<close> appends one rule to the group.\<close>

definition addIngressRule :: "Peer \<Rightarrow> Port \<Rightarrow> string \<Rightarrow> security_group \<Rightarrow> security_group" where
  "addIngressRule peer port description sg =
     sg\<lparr>sg_ingressRules := sg_ingressRules sg @
          [\<lparr>ir_peer = peer, ir_port = port, ir_description = Some description\<rparr>]\<rparr>"

section \<open>Identity and permissions\<close>

datatype Principal = ServicePrincipal string

datatype grant = Grant_read construct_ref | Grant_readWrite construct_ref

record role =
  role_assumedBy :: Principal
  role_managedPolicies :: "string list"

section \<open>Storage\<close>

datatype BucketEncryption = UNENCRYPTED | KMS_MANAGED | S3_MANAGED | KMS

datatype BlockPublicAccess = BLOCK_ALL | BLOCK_ACLS

record bucket =
  bk_bucketName :: cdk_string
  bk_versioned :: bool
  bk_encryption :: BucketEncryption
  bk_blockPublicAccess :: BlockPublicAccess
  bk_removalPolicy :: RemovalPolicy
  bk_grants :: "grant list"

text \<open>\<^verbatim>\<open>bucket.grantReadWrite(role)\<close> records a read-write grant for the role.\<close>

definition grantReadWrite :: "construct_ref \<Rightarrow> bucket \<Rightarrow> bucket" where
  "grantReadWrite grantee b = b\<lparr>bk_grants := bk_grants b @ [Grant_readWrite grantee]\<rparr>"

section \<open>Relational database\<close>

record subnet_group =
  sng_vpc :: construct_ref
  sng_description :: string
  sng_vpcSubnets :: subnet_selection

record secret_string_generator =
  gen_secretStringTemplate :: string
  gen_generateStringKey :: string
  gen_excludeCharacters :: string

record secret =
  sec_generateSecretString :: secret_string_generator
  sec_grants :: "grant list"

definition grantRead :: "construct_ref \<Rightarrow> secret \<Rightarrow> secret" where
  "grantRead grantee s = s\<lparr>sec_grants := sec_grants s @ [Grant_read grantee]\<rparr>"

datatype PostgresEngineVersion = VER_14_9 | VER_15_4 | VER_16_1
datatype DatabaseInstanceEngine = DatabaseInstanceEngine_postgres PostgresEngineVersion
datatype Credentials = Credentials_fromSecret construct_ref

record database_instance =
  db_engine :: DatabaseInstanceEngine
  db_instanceType :: InstanceType
  db_vpc :: construct_ref
  db_subnetGroup :: construct_ref
  db_credentials :: Credentials
  db_multiAz :: bool
  db_allocatedStorage :: nat
  db_storageEncrypted :: bool
  db_deletionProtection :: bool
  db_removalPolicy :: RemovalPolicy
  db_connections :: "ingress_rule list"

text \<open>\<^verbatim>\<open>database.connections.allowFrom(peer, port)\<close> admits the peer on the port; the
  call gives no description.\<close>

definition allowFrom :: "Peer \<Rightarrow> Port \<Rightarrow> database_instance \<Rightarrow> database_instance" where
  "allowFrom peer port db =
     db\<lparr>db_connections := db_connections db @
          [\<lparr>ir_peer = peer, ir_port = port, ir_description = None\<rparr>]\<rparr>"

section \<open>Compute scaling\<close>

datatype OperatingSystem = Linux | Windows

record user_data =
  ud_os :: OperatingSystem
  ud_commands :: "string list"

definition UserData_forLinux :: user_data where
  "UserData_forLinux = \<lparr>ud_os = Linux, ud_commands = []\<rparr>"

definition addCommands :: "string list \<Rightarrow> user_data \<Rightarrow> user_data" where
  "addCommands commands ud = ud\<lparr>ud_commands := ud_commands ud @ commands\<rparr>"

datatype MachineImage = MachineImage_latestAmazonLinux2 | MachineImage_latestAmazonLinux2023

record launch_template =
  lt_instanceType :: InstanceType
  lt_machineImage :: MachineImage
  lt_securityGroup :: construct_ref
  lt_role :: construct_ref
  lt_userData :: user_data

datatype HealthCheck = HealthCheck_ec2 "Duration option" | HealthCheck_elb Duration

text \<open>A metric of the monitoring service: a namespace, a name and the dimensions that
  select what is measured.\<close>

record metric =
  metric_namespace :: string
  metric_metricName :: string
  metric_dimensionsMap :: "(string \<times> cdk_string) list"

datatype AdjustmentType = CHANGE_IN_CAPACITY | PERCENT_CHANGE_IN_CAPACITY | EXACT_CAPACITY

text \<open>A scaling interval: either bound may be omitted.\<close>

record scaling_interval =
  si_lower :: "real option"
  si_upper :: "real option"
  si_change :: int

record step_scaling_policy =
  pol_metric :: metric
  pol_scalingSteps :: "scaling_interval list"
  pol_adjustmentType :: AdjustmentType

record auto_scaling_group =
  asg_vpc :: construct_ref
  asg_launchTemplate :: construct_ref
  asg_minCapacity :: nat
  asg_maxCapacity :: nat
  asg_desiredCapacity :: nat
  asg_vpcSubnets :: subnet_selection
  asg_healthCheck :: HealthCheck
  asg_scalingPolicies :: "(string \<times> step_scaling_policy) list"

text \<open>
  \<^verbatim>\<open>autoScalingGroup.metricCpuUtilization()\<close>. The class \<^verbatim>\<open>AutoScalingGroup\<close> of
  the library has methods to scale on a metric (\<^verbatim>\<open>scaleOnMetric\<close>,
  \<^verbatim>\<open>scaleOnCpuUtilization\<close>, ...) but no member \<^verbatim>\<open>metricCpuUtilization\<close>, so the
  member is undefined on the object and calling it raises a \<^verbatim>\<open>TypeError\<close>.
\<close>

definition metricCpuUtilization :: "construct_ref \<Rightarrow> error + metric" where
  "metricCpuUtilization g = Inl (TypeError ''autoScalingGroup.metricCpuUtilization is not a function'')"

text \<open>
  \<^verbatim>\<open>group.scaleOnMetric(id, props)\<close> attaches a step scaling policy to the group
  under the given identifier. The library refuses an identifier the group has already
  given to a policy, and then a step list of fewer than two intervals.
\<close>

definition scaleOnMetric ::
    "string \<Rightarrow> step_scaling_policy \<Rightarrow> auto_scaling_group \<Rightarrow> error + auto_scaling_group" where
  "scaleOnMetric ident props g =
     (if ident \<in> set (map fst (asg_scalingPolicies g)) then Inl (DuplicateConstruct ident)
      else if length (pol_scalingSteps props) < 2
        then Inl (TooFewIntervals (length (pol_scalingSteps props)))
      else Inr (g\<lparr>asg_scalingPolicies := asg_scalingPolicies g @ [(ident, props)]\<rparr>))"

section \<open>Routing\<close>

datatype ApplicationProtocol = ApplicationProtocol_HTTP | ApplicationProtocol_HTTPS

datatype Protocol = Protocol_HTTP | Protocol_HTTPS | Protocol_TCP

text \<open>The health check of the source sets no port of its own, so the field is optional.\<close>

record health_check =
  hc_enabled :: bool
  hc_healthyHttpCodes :: string
  hc_path :: string
  hc_protocol :: Protocol
  hc_port :: "nat option"

record application_target_group =
  tg_vpc :: construct_ref
  tg_port :: nat
  tg_protocol :: ApplicationProtocol
  tg_targets :: "construct_ref list"
  tg_healthCheck :: health_check

record application_listener =
  lis_port :: nat
  lis_protocol :: ApplicationProtocol
  lis_defaultTargetGroups :: "construct_ref list"

record application_load_balancer =
  alb_vpc :: construct_ref
  alb_internetFacing :: bool
  alb_securityGroup :: construct_ref
  alb_vpcSubnets :: subnet_selection
  alb_listeners :: "(string \<times> application_listener) list"

definition addListener ::
    "string \<Rightarrow> application_listener \<Rightarrow> application_load_balancer \<Rightarrow> application_load_balancer" where
  "addListener ident props lb = lb\<lparr>alb_listeners := alb_listeners lb @ [(ident, props)]\<rparr>"

section \<open>Outputs\<close>

text \<open>An output has a value and may have a description.\<close>

record cfn_output =
  out_value :: cdk_string
  out_description :: "string option"

section \<open>Public API\<close>

datatype CorsOrigins = Cors_ALL_ORIGINS | Cors_origins "string list"
datatype CorsMethods = Cors_ALL_METHODS | Cors_methods "string list"

record cors_options =
  cors_allowOrigins :: CorsOrigins
  cors_allowMethods :: CorsMethods

record http_integration =
  int_url :: cdk_string
  int_httpMethod :: string
  int_proxy :: bool

record proxy_resource_options =
  px_defaultIntegration :: http_integration
  px_anyMethod :: bool

text \<open>Besides its properties and the proxies added to its root, a REST API holds the
  outputs that the library declares under it.\<close>

record rest_api =
  api_restApiName :: string
  api_description :: string
  api_defaultCorsPreflightOptions :: cors_options
  api_rootProxies :: "proxy_resource_options list"
  api_outputs :: "(string \<times> cfn_output) list"

definition addProxy :: "proxy_resource_options \<Rightarrow> rest_api \<Rightarrow> rest_api" where
  "addProxy opts api = api\<lparr>api_rootProxies := api_rootProxies api @ [opts]\<rparr>"

section \<open>Container tasks\<close>

record cluster =
  cl_vpc :: construct_ref
  cl_clusterName :: string

datatype ContainerImage = ContainerImage_fromRegistry string

datatype RetentionDays = ONE_DAY | ONE_WEEK | ONE_MONTH

record aws_logs =
  logs_streamPrefix :: string
  logs_logRetention :: RetentionDays

datatype LogDriver = LogDrivers_awsLogs aws_logs

record container_definition =
  cd_image :: ContainerImage
  cd_command :: "string list"
  cd_logging :: LogDriver

record fargate_task_definition =
  td_memoryLimitMiB :: nat
  td_cpu :: nat
  td_taskRole :: construct_ref
  td_containers :: "(string \<times> container_definition) list"

definition addContainer ::
    "string \<Rightarrow> container_definition \<Rightarrow> fargate_task_definition \<Rightarrow> fargate_task_definition" where
  "addContainer ident props td = td\<lparr>td_containers := td_containers td @ [(ident, props)]\<rparr>"

record fargate_service =
  svc_cluster :: construct_ref
  svc_taskDefinition :: construct_ref
  svc_desiredCount :: nat
  svc_vpcSubnets :: subnet_selection

section \<open>Observability\<close>

text \<open>The dashboard's widgets and the alarm's actions are what \<^verbatim>\<open>addWidgets\<close> and
  \<^verbatim>\<open>addAlarmAction\<close> would add; a record created without them has none.\<close>

record dashboard =
  dash_dashboardName :: string
  dash_widgets :: "string list"

datatype TreatMissingData = BREACHING | NOT_BREACHING | IGNORE | MISSING

record alarm =
  alarm_metric :: metric
  alarm_threshold :: real
  alarm_evaluationPeriods :: nat
  alarm_treatMissingData :: TreatMissingData
  alarm_alarmActions :: "construct_ref list"

section \<open>The descriptor tree\<close>

datatype construct =
    Vpc vpc
  | Bucket bucket
  | SubnetGroup subnet_group
  | Secret secret
  | DatabaseInstance database_instance
  | SecurityGroup security_group
  | Role role
  | LaunchTemplate launch_template
  | AutoScalingGroup auto_scaling_group
  | ApplicationLoadBalancer application_load_balancer
  | ApplicationTargetGroup application_target_group
  | RestApi rest_api
  | Cluster cluster
  | FargateTaskDefinition fargate_task_definition
  | FargateService fargate_service
  | Dashboard dashboard
  | Alarm alarm
  | CfnOutput cfn_output

record environment =
  env_account :: "string option"
  env_region :: "string option"

record stack_props =
  sp_env :: "environment option"
  sp_description :: "string option"

record stack =
  st_id :: string
  st_props :: "stack_props option"
  st_children :: "(string \<times> construct) list"

section \<open>Statements of a constructor\<close>

text \<open>
  A statement of the constructor works on the stack under construction and may raise.
  It returns the stack as it leaves it, and the error if it raised: what was declared
  before an error stays declared, and the statements after it do not run.
\<close>

type_synonym step = "stack \<Rightarrow> stack \<times> error option"

fun run :: "step list \<Rightarrow> step" where
  "run [] this = (this, None)"
| "run (s # ss) this =
     (case s this of
        (this', Some e) \<Rightarrow> (this', Some e)
      | (this', None) \<Rightarrow> run ss this')"

text \<open>\<^verbatim>\<open>new X(this, id, props)\<close> adds a child under its identifier; the library
  refuses an identifier that the scope has already given to a child.\<close>

definition newConstruct :: "string \<Rightarrow> construct \<Rightarrow> step" where
  "newConstruct ident c this =
     (if ident \<in> set (map fst (st_children this)) then (this, Some (DuplicateConstruct ident))
      else (this\<lparr>st_children := st_children this @ [(ident, c)]\<rparr>, None))"

text \<open>A method call that changes one child of the stack; the call may raise, and then
  the child is left as it was.\<close>

fun updateChild ::
    "string \<Rightarrow> (construct \<Rightarrow> error + construct) \<Rightarrow> (string \<times> construct) list
       \<Rightarrow> error + (string \<times> construct) list" where
  "updateChild ident f [] = Inr []"
| "updateChild ident f ((i, c) # cs) =
     (if i = ident
      then (case f c of Inl e \<Rightarrow> Inl e | Inr c' \<Rightarrow> Inr ((i, c') # cs))
      else (case updateChild ident f cs of Inl e \<Rightarrow> Inl e | Inr cs' \<Rightarrow> Inr ((i, c) # cs')))"

section \<open>The records of lines 20 to 272\<close>

text \<open>
  One definition for each \<^verbatim>\<open>const\<close> of lines 20 to 272 of the constructor: the
  \<^verbatim>\<open>new\<close> expression, then the method calls that these lines make on the object,
  in the order of the source. None of these calls can raise, so each record is given
  as line 272 leaves it. The calls of \<^verbatim>\<open>scaleOnMetric\<close> come later (lines 283 and
  292) and are statements of their own.
\<close>

definition vpc :: vpc where
  "vpc = \<lparr>vpc_maxAzs = 3, vpc_natGateways = 2,
     vpc_subnetConfiguration =
       [\<lparr>sc_cidrMask = 24, sc_name = ''Public'', sc_subnetType = PUBLIC\<rparr>,
        \<lparr>sc_cidrMask = 24, sc_name = ''Private-Backend'', sc_subnetType = PRIVATE_WITH_EGRESS\<rparr>,
        \<lparr>sc_cidrMask = 24, sc_name = ''Private-Clients'', sc_subnetType = PRIVATE_WITH_EGRESS\<rparr>]\<rparr>"

definition dataBucket :: bucket where
  "dataBucket =
     grantReadWrite (Ref ''FargateTaskRole'')
       (grantReadWrite (Ref ''BackendInstanceRole'')
          \<lparr>bk_bucketName = [Lit ''scalable-backend-data-'', ThisAccount, Lit ''-'', ThisRegion],
           bk_versioned = True,
           bk_encryption = S3_MANAGED,
           bk_blockPublicAccess = BLOCK_ALL,
           bk_removalPolicy = DESTROY,
           bk_grants = []\<rparr>)"

definition dbSubnetGroup :: subnet_group where
  "dbSubnetGroup = \<lparr>sng_vpc = Ref ''ScalableBackendVPC'',
     sng_description = ''Subnet group for RDS database'',
     sng_vpcSubnets = \<lparr>sel_subnetType = PRIVATE_WITH_EGRESS\<rparr>\<rparr>"

text \<open>The template is \<^verbatim>\<open>JSON.stringify({ username: 'admin' })\<close>; the excluded
  characters are the double quote, the at sign, the slash and the backslash.\<close>

definition dbSecret :: secret where
  \<open>dbSecret =
     grantRead (Ref ''BackendInstanceRole'')
       \<lparr>sec_generateSecretString =
          \<lparr>gen_secretStringTemplate = ''{"username":"admin"}'',
           gen_generateStringKey = ''password'',
           gen_excludeCharacters = [CHR 0x22, CHR ''@'', CHR ''/'', CHR 0x5C]\<rparr>,
        sec_grants = []\<rparr>\<close>

definition database :: database_instance where
  "database =
     allowFrom (Peer_securityGroup (Ref ''BackendSecurityGroup'')) (Port_tcp 5432)
       \<lparr>db_engine = DatabaseInstanceEngine_postgres VER_15_4,
        db_instanceType = InstanceType_of T3 MICRO,
        db_vpc = Ref ''ScalableBackendVPC'',
        db_subnetGroup = Ref ''DatabaseSubnetGroup'',
        db_credentials = Credentials_fromSecret (Ref ''DatabaseSecret''),
        db_multiAz = False,
        db_allocatedStorage = 20,
        db_storageEncrypted = True,
        db_deletionProtection = False,
        db_removalPolicy = DESTROY,
        db_connections = []\<rparr>"

definition backendSecurityGroup :: security_group where
  "backendSecurityGroup =
     addIngressRule (Peer_securityGroup (Ref ''ALBSecurityGroup'')) (Port_tcp 8080)
         ''Allow traffic from ALB''
       \<lparr>sg_vpc = Ref ''ScalableBackendVPC'',
        sg_description = ''Security group for backend instances'',
        sg_allowAllOutbound = True,
        sg_ingressRules = []\<rparr>"

definition albSecurityGroup :: security_group where
  "albSecurityGroup =
     addIngressRule Peer_anyIpv4 (Port_tcp 443) ''Allow HTTPS traffic from anywhere''
       (addIngressRule Peer_anyIpv4 (Port_tcp 80) ''Allow HTTP traffic from anywhere''
          \<lparr>sg_vpc = Ref ''ScalableBackendVPC'',
           sg_description = ''Security group for Application Load Balancer'',
           sg_allowAllOutbound = True,
           sg_ingressRules = []\<rparr>)"

definition backendRole :: role where
  "backendRole = \<lparr>role_assumedBy = ServicePrincipal ''ec2.amazonaws.com'',
     role_managedPolicies = [''CloudWatchAgentServerPolicy'', ''AmazonSSMManagedInstanceCore'']\<rparr>"

definition userData :: user_data where
  "userData =
     addCommands
       [''yum update -y'',
        ''yum install -y docker'',
        ''systemctl start docker'',
        ''systemctl enable docker'',
        ''usermod -a -G docker ec2-user'',
        ''wget https://s3.amazonaws.com/amazoncloudwatch-agent/amazon_linux/amd64/latest/amazon-cloudwatch-agent.rpm'',
        ''rpm -U ./amazon-cloudwatch-agent.rpm'',
        ''docker run -d -p 8080:8080 --name backend-app nginx:alpine'']
       UserData_forLinux"

definition launchTemplate :: launch_template where
  "launchTemplate = \<lparr>lt_instanceType = InstanceType_of T3 MICRO,
     lt_machineImage = MachineImage_latestAmazonLinux2,
     lt_securityGroup = Ref ''BackendSecurityGroup'',
     lt_role = Ref ''BackendInstanceRole'',
     lt_userData = userData\<rparr>"

text \<open>The properties of the two scaling policies and of the alarm, given the metric
  that \<^verbatim>\<open>autoScalingGroup.metricCpuUtilization()\<close> is called for.\<close>

definition scaleUpPolicy :: "metric \<Rightarrow> step_scaling_policy" where
  "scaleUpPolicy m = \<lparr>pol_metric = m,
     pol_scalingSteps =
       [\<lparr>si_lower = None, si_upper = Some 50, si_change = 1\<rparr>,
        \<lparr>si_lower = Some 80, si_upper = None, si_change = 2\<rparr>],
     pol_adjustmentType = CHANGE_IN_CAPACITY\<rparr>"

definition scaleDownPolicy :: "metric \<Rightarrow> step_scaling_policy" where
  "scaleDownPolicy m = \<lparr>pol_metric = m,
     pol_scalingSteps = [\<lparr>si_lower = None, si_upper = Some 30, si_change = - 1\<rparr>],
     pol_adjustmentType = CHANGE_IN_CAPACITY\<rparr>"

definition autoScalingGroup :: auto_scaling_group where
  "autoScalingGroup =
     \<lparr>asg_vpc = Ref ''ScalableBackendVPC'',
      asg_launchTemplate = Ref ''BackendLaunchTemplate'',
      asg_minCapacity = 2,
      asg_maxCapacity = 10,
      asg_desiredCapacity = 3,
      asg_vpcSubnets = \<lparr>sel_subnetType = PRIVATE_WITH_EGRESS\<rparr>,
      asg_healthCheck = HealthCheck_elb (Duration_minutes 5),
      asg_scalingPolicies = []\<rparr>"

definition listener :: application_listener where
  "listener = \<lparr>lis_port = 80, lis_protocol = ApplicationProtocol_HTTP,
     lis_defaultTargetGroups = [Ref ''BackendTargetGroup'']\<rparr>"

definition alb :: application_load_balancer where
  "alb =
     addListener ''Listener'' listener
       \<lparr>alb_vpc = Ref ''ScalableBackendVPC'',
        alb_internetFacing = True,
        alb_securityGroup = Ref ''ALBSecurityGroup'',
        alb_vpcSubnets = \<lparr>sel_subnetType = PUBLIC\<rparr>,
        alb_listeners = []\<rparr>"

definition targetGroup :: application_target_group where
  "targetGroup = \<lparr>tg_vpc = Ref ''ScalableBackendVPC'',
     tg_port = 8080,
     tg_protocol = ApplicationProtocol_HTTP,
     tg_targets = [Ref ''BackendAutoScalingGroup''],
     tg_healthCheck =
       \<lparr>hc_enabled = True, hc_healthyHttpCodes = ''200'', hc_path = ''/health'',
        hc_protocol = Protocol_HTTP, hc_port = None\<rparr>\<rparr>"

definition integration :: http_integration where
  "integration = \<lparr>int_url = [Lit ''http://'', Attr (Ref ''ApplicationLoadBalancer'') ''loadBalancerDnsName''],
     int_httpMethod = ''ANY'',
     int_proxy = True\<rparr>"

text \<open>The library's \<^verbatim>\<open>RestApi\<close> declares an output of its own under the API,
  \<^verbatim>\<open>Endpoint\<close>, with the URL of the API and no description.\<close>

definition api :: rest_api where
  "api =
     addProxy \<lparr>px_defaultIntegration = integration, px_anyMethod = True\<rparr>
       \<lparr>api_restApiName = ''Scalable Backend API'',
        api_description = ''REST API for scalable backend service'',
        api_defaultCorsPreflightOptions =
          \<lparr>cors_allowOrigins = Cors_ALL_ORIGINS, cors_allowMethods = Cors_ALL_METHODS\<rparr>,
        api_rootProxies = [],
        api_outputs =
          [(''Endpoint'',
            \<lparr>out_value = [Attr (Ref ''BackendAPI'') ''url''], out_description = None\<rparr>)]\<rparr>"

definition cluster :: cluster where
  "cluster = \<lparr>cl_vpc = Ref ''ScalableBackendVPC'', cl_clusterName = ''download-agents-cluster''\<rparr>"

definition fargateTaskRole :: role where
  "fargateTaskRole = \<lparr>role_assumedBy = ServicePrincipal ''ecs-tasks.amazonaws.com'',
     role_managedPolicies = []\<rparr>"

definition container :: container_definition where
  \<open>container = \<lparr>cd_image = ContainerImage_fromRegistry ''alpine:latest'',
     cd_command = [''sh'', ''-c'',
       ''while true; do echo "Download agent running..."; sleep 60; done''],
     cd_logging = LogDrivers_awsLogs
       \<lparr>logs_streamPrefix = ''download-agent'', logs_logRetention = ONE_WEEK\<rparr>\<rparr>\<close>

definition taskDefinition :: fargate_task_definition where
  "taskDefinition =
     addContainer ''DownloadAgentContainer'' container
       \<lparr>td_memoryLimitMiB = 512, td_cpu = 256, td_taskRole = Ref ''FargateTaskRole'',
        td_containers = []\<rparr>"

definition fargateService :: fargate_service where
  "fargateService = \<lparr>svc_cluster = Ref ''FargateCluster'',
     svc_taskDefinition = Ref ''DownloadAgentTaskDefinition'',
     svc_desiredCount = 3,
     svc_vpcSubnets = \<lparr>sel_subnetType = PRIVATE_WITH_EGRESS\<rparr>\<rparr>"

definition dashboard :: dashboard where
  "dashboard = \<lparr>dash_dashboardName = ''ScalableBackendMonitoring'', dash_widgets = []\<rparr>"

definition cpuAlarm :: "metric \<Rightarrow> alarm" where
  "cpuAlarm m = \<lparr>alarm_metric = m,
     alarm_threshold = 80,
     alarm_evaluationPeriods = 2,
     alarm_treatMissingData = NOT_BREACHING,
     alarm_alarmActions = []\<rparr>"

section \<open>The constructor of \<^verbatim>\<open>ScalableBackendStack\<close>\<close>

text \<open>Lines 275 to 280: the properties of the alarm are evaluated first, the call of
  \<^verbatim>\<open>metricCpuUtilization\<close> among them, and then the alarm is created.\<close>

definition declareAlarm :: step where
  "declareAlarm this =
     (case metricCpuUtilization (Ref ''BackendAutoScalingGroup'') of
        Inl e \<Rightarrow> (this, Some e)
      | Inr m \<Rightarrow> newConstruct ''HighCPUAlarm'' (Alarm (cpuAlarm m)) this)"

text \<open>Lines 283 to 298: for each policy the properties are evaluated first, the call
  of \<^verbatim>\<open>metricCpuUtilization\<close> among them, and then \<^verbatim>\<open>scaleOnMetric\<close> is called on
  the scaling group.\<close>

definition declarePolicy :: "string \<Rightarrow> (metric \<Rightarrow> step_scaling_policy) \<Rightarrow> step" where
  "declarePolicy ident props this =
     (case metricCpuUtilization (Ref ''BackendAutoScalingGroup'') of
        Inl e \<Rightarrow> (this, Some e)
      | Inr m \<Rightarrow>
          (case updateChild ''BackendAutoScalingGroup''
                  (\<lambda>c. case c of
                          AutoScalingGroup g \<Rightarrow>
                            (case scaleOnMetric ident (props m) g of
                               Inl e \<Rightarrow> Inl e
                             | Inr g' \<Rightarrow> Inr (AutoScalingGroup g'))
                        | _ \<Rightarrow> Inr c)
                  (st_children this) of
             Inl e \<Rightarrow> (this, Some e)
           | Inr cs \<Rightarrow> (this\<lparr>st_children := cs\<rparr>, None)))"

text \<open>Lines 301 to 319: the four \<^verbatim>\<open>CfnOutput\<close> records, in the order of the source.\<close>

definition declareOutputs :: step where
  "declareOutputs =
     run
       [newConstruct ''LoadBalancerDNS'' (CfnOutput
          \<lparr>out_value = [Attr (Ref ''ApplicationLoadBalancer'') ''loadBalancerDnsName''],
           out_description = Some ''DNS name of the Application Load Balancer''\<rparr>),
        newConstruct ''APIGatewayURL'' (CfnOutput
          \<lparr>out_value = [Attr (Ref ''BackendAPI'') ''url''],
           out_description = Some ''URL of the API Gateway''\<rparr>),
        newConstruct ''S3BucketName'' (CfnOutput
          \<lparr>out_value = [Attr (Ref ''DataBucket'') ''bucketName''],
           out_description = Some ''Name of the S3 data bucket''\<rparr>),
        newConstruct ''DatabaseEndpoint'' (CfnOutput
          \<lparr>out_value = [Attr (Ref ''Database'') ''instanceEndpoint.hostname''],
           out_description = Some ''RDS database endpoint''\<rparr>)]"

text \<open>Lines 20 to 272: the records that are created before the alarm.\<close>

definition declareRecords :: step where
  "declareRecords =
     run
       [newConstruct ''ScalableBackendVPC'' (Vpc vpc),
        newConstruct ''DataBucket'' (Bucket dataBucket),
        newConstruct ''DatabaseSubnetGroup'' (SubnetGroup dbSubnetGroup),
        newConstruct ''DatabaseSecret'' (Secret dbSecret),
        newConstruct ''Database'' (DatabaseInstance database),
        newConstruct ''BackendSecurityGroup'' (SecurityGroup backendSecurityGroup),
        newConstruct ''ALBSecurityGroup'' (SecurityGroup albSecurityGroup),
        newConstruct ''BackendInstanceRole'' (Role backendRole),
        newConstruct ''BackendLaunchTemplate'' (LaunchTemplate launchTemplate),
        newConstruct ''BackendAutoScalingGroup'' (AutoScalingGroup autoScalingGroup),
        newConstruct ''ApplicationLoadBalancer'' (ApplicationLoadBalancer alb),
        newConstruct ''BackendTargetGroup'' (ApplicationTargetGroup targetGroup),
        newConstruct ''BackendAPI'' (RestApi api),
        newConstruct ''FargateCluster'' (Cluster cluster),
        newConstruct ''FargateTaskRole'' (Role fargateTaskRole),
        newConstruct ''DownloadAgentTaskDefinition'' (FargateTaskDefinition taskDefinition),
        newConstruct ''DownloadAgentService'' (FargateService fargateService),
        newConstruct ''ScalableBackendDashboard'' (Dashboard dashboard)]"

text \<open>
  The constructor: \<^verbatim>\<open>super(scope, id, props)\<close> keeps the identifier and the
  properties, and the statements follow in the order of the source. The result is the
  stack as the constructor leaves it, and the error if a statement raised.
\<close>

definition ScalableBackendStack :: "string \<Rightarrow> stack_props option \<Rightarrow> stack \<times> error option" where
  "ScalableBackendStack ident props =
     run
       [declareRecords,
        declareAlarm,
        declarePolicy ''ScaleUpPolicy'' scaleUpPolicy,
        declarePolicy ''ScaleDownPolicy'' scaleDownPolicy,
        declareOutputs]
       \<lparr>st_id = ident, st_props = props, st_children = []\<rparr>"

section \<open>The entry point\<close>






section \<open>Reading the tree\<close>

text \<open>The records of one kind among the children of a stack.\<close>

definition buckets :: "stack \<Rightarrow> bucket list" where
  "buckets t = List.map_filter (\<lambda>(i, c). case c of Bucket b \<Rightarrow> Some b | _ \<Rightarrow> None) (st_children t)"

definition databaseInstances :: "stack \<Rightarrow> database_instance list" where
  "databaseInstances t =
     List.map_filter (\<lambda>(i, c). case c of DatabaseInstance d \<Rightarrow> Some d | _ \<Rightarrow> None) (st_children t)"

definition autoScalingGroups :: "stack \<Rightarrow> auto_scaling_group list" where
  "autoScalingGroups t =
     List.map_filter (\<lambda>(i, c). case c of AutoScalingGroup g \<Rightarrow> Some g | _ \<Rightarrow> None) (st_children t)"



text \<open>The references a record holds to other constructs.\<close>

fun partRefs :: "str_part \<Rightarrow> construct_ref list" where
  "partRefs (Attr r a) = [r]"
| "partRefs _ = []"

definition stringRefs :: "cdk_string \<Rightarrow> construct_ref list" where
  "stringRefs s = concat (map partRefs s)"

fun peerRefs :: "Peer \<Rightarrow> construct_ref list" where
  "peerRefs (Peer_securityGroup r) = [r]"
| "peerRefs Peer_anyIpv4 = []"

fun grantRef :: "grant \<Rightarrow> construct_ref" where
  "grantRef (Grant_read r) = r"
| "grantRef (Grant_readWrite r) = r"

definition metricRefs :: "metric \<Rightarrow> construct_ref list" where
  "metricRefs m = concat (map (\<lambda>(k, v). stringRefs v) (metric_dimensionsMap m))"

fun credentialsRef :: "Credentials \<Rightarrow> construct_ref" where
  "credentialsRef (Credentials_fromSecret r) = r"

definition rulesRefs :: "ingress_rule list \<Rightarrow> construct_ref list" where
  "rulesRefs rules = concat (map (\<lambda>r. peerRefs (ir_peer r)) rules)"

fun constructRefs :: "construct \<Rightarrow> construct_ref list" where
  "constructRefs (Vpc v) = []"
| "constructRefs (Bucket b) = stringRefs (bk_bucketName b) @ map grantRef (bk_grants b)"
| "constructRefs (SubnetGroup g) = [sng_vpc g]"
| "constructRefs (Secret s) = map grantRef (sec_grants s)"
| "constructRefs (DatabaseInstance d) =
     [db_vpc d, db_subnetGroup d, credentialsRef (db_credentials d)] @ rulesRefs (db_connections d)"
| "constructRefs (SecurityGroup g) = sg_vpc g # rulesRefs (sg_ingressRules g)"
| "constructRefs (Role r) = []"
| "constructRefs (LaunchTemplate l) = [lt_securityGroup l, lt_role l]"
| "constructRefs (AutoScalingGroup g) =
     [asg_vpc g, asg_launchTemplate g] @
     concat (map (\<lambda>(i, p). metricRefs (pol_metric p)) (asg_scalingPolicies g))"
| "constructRefs (ApplicationLoadBalancer l) =
     [alb_vpc l, alb_securityGroup l] @
     concat (map (\<lambda>(i, x). lis_defaultTargetGroups x) (alb_listeners l))"
| "constructRefs (ApplicationTargetGroup g) = tg_vpc g # tg_targets g"
| "constructRefs (RestApi a) =
     concat (map (\<lambda>p. stringRefs (int_url (px_defaultIntegration p))) (api_rootProxies a)) @
     concat (map (\<lambda>(j, out). stringRefs (out_value out)) (api_outputs a))"
| "constructRefs (Cluster c) = [cl_vpc c]"
| "constructRefs (FargateTaskDefinition d) = [td_taskRole d]"
| "constructRefs (FargateService s) = [svc_cluster s, svc_taskDefinition s]"
| "constructRefs (Dashboard d) = []"
| "constructRefs (Alarm a) = metricRefs (alarm_metric a) @ alarm_alarmActions a"
| "constructRefs (CfnOutput out) = stringRefs (out_value out)"

definition stackRefs :: "stack \<Rightarrow> construct_ref list" where
  "stackRefs t = concat (map (\<lambda>(i, c). constructRefs c) (st_children t))"

definition declared :: "stack \<Rightarrow> construct_ref list" where
  "declared t = map (\<lambda>(i, c). Ref i) (st_children t)"

text \<open>The TCP ports a list of ingress rules admits from one peer.\<close>

fun tcpPort :: "Port \<Rightarrow> nat option" where
  "tcpPort (Port_tcp p) = Some p"
| "tcpPort Port_allTraffic = None"

definition admittedTcpPorts :: "ingress_rule list \<Rightarrow> Peer \<Rightarrow> nat list" where
  "admittedTcpPorts rules peer =
     List.map_filter (\<lambda>r. if ir_peer r = peer then tcpPort (ir_port r) else None) rules"

text \<open>A target group whose health check names no port is checked on its traffic port.\<close>

definition healthCheckPort :: "application_target_group \<Rightarrow> nat" where
  "healthCheckPort g = (case hc_port (tg_healthCheck g) of None \<Rightarrow> tg_port g | Some p \<Rightarrow> p)"

section \<open>Evaluating the constructor\<close>

lemmas record_defs =
  vpc_def dataBucket_def grantReadWrite_def dbSubnetGroup_def dbSecret_def grantRead_def
  database_def allowFrom_def backendSecurityGroup_def albSecurityGroup_def addIngressRule_def
  backendRole_def launchTemplate_def autoScalingGroup_def alb_def addListener_def listener_def
  targetGroup_def api_def addProxy_def integration_def cluster_def fargateTaskRole_def
  taskDefinition_def addContainer_def fargateService_def dashboard_def

text \<open>The constructor raises on line 276, in the properties of the alarm, and leaves
  the eighteen records of lines 20 to 272.\<close>

lemma ScalableBackendStack_eval:
  "ScalableBackendStack ident props =
     (\<lparr>st_id = ident, st_props = props,
       st_children =
         [(''ScalableBackendVPC'', Vpc vpc),
          (''DataBucket'', Bucket dataBucket),
          (''DatabaseSubnetGroup'', SubnetGroup dbSubnetGroup),
          (''DatabaseSecret'', Secret dbSecret),
          (''Database'', DatabaseInstance database),
          (''BackendSecurityGroup'', SecurityGroup backendSecurityGroup),
          (''ALBSecurityGroup'', SecurityGroup albSecurityGroup),
          (''BackendInstanceRole'', Role backendRole),
          (''BackendLaunchTemplate'', LaunchTemplate launchTemplate),
          (''BackendAutoScalingGroup'', AutoScalingGroup autoScalingGroup),
          (''ApplicationLoadBalancer'', ApplicationLoadBalancer alb),
          (''BackendTargetGroup'', ApplicationTargetGroup targetGroup),
          (''BackendAPI'', RestApi api),
          (''FargateCluster'', Cluster cluster),
          (''FargateTaskRole'', Role fargateTaskRole),
          (''DownloadAgentTaskDefinition'', FargateTaskDefinition taskDefinition),
          (''DownloadAgentService'', FargateService fargateService),
          (''ScalableBackendDashboard'', Dashboard dashboard)]\<rparr>,
      Some (TypeError ''autoScalingGroup.metricCpuUtilization is not a function''))"
  by (simp add: ScalableBackendStack_def declareRecords_def newConstruct_def declareAlarm_def
      metricCpuUtilization_def)

lemma children_ids:
  "map fst (st_children (fst (ScalableBackendStack ident props))) =
     [''ScalableBackendVPC'', ''DataBucket'', ''DatabaseSubnetGroup'', ''DatabaseSecret'',
      ''Database'', ''BackendSecurityGroup'', ''ALBSecurityGroup'', ''BackendInstanceRole'',
      ''BackendLaunchTemplate'', ''BackendAutoScalingGroup'', ''ApplicationLoadBalancer'',
      ''BackendTargetGroup'', ''BackendAPI'', ''FargateCluster'', ''FargateTaskRole'',
      ''DownloadAgentTaskDefinition'', ''DownloadAgentService'', ''ScalableBackendDashboard'']"
  by (simp add: ScalableBackendStack_eval)

lemma stackRefs_eval:
  "stackRefs (fst (ScalableBackendStack ident props)) =
     [Ref ''BackendInstanceRole'', Ref ''FargateTaskRole'', Ref ''ScalableBackendVPC'',
      Ref ''BackendInstanceRole'', Ref ''ScalableBackendVPC'', Ref ''DatabaseSubnetGroup'',
      Ref ''DatabaseSecret'', Ref ''BackendSecurityGroup'', Ref ''ScalableBackendVPC'',
      Ref ''ALBSecurityGroup'', Ref ''ScalableBackendVPC'', Ref ''BackendSecurityGroup'',
      Ref ''BackendInstanceRole'', Ref ''ScalableBackendVPC'', Ref ''BackendLaunchTemplate'',
      Ref ''ScalableBackendVPC'', Ref ''ALBSecurityGroup'', Ref ''BackendTargetGroup'',
      Ref ''ScalableBackendVPC'', Ref ''BackendAutoScalingGroup'',
      Ref ''ApplicationLoadBalancer'', Ref ''BackendAPI'', Ref ''ScalableBackendVPC'',
      Ref ''FargateTaskRole'', Ref ''FargateCluster'', Ref ''DownloadAgentTaskDefinition'']"
  by (simp add: ScalableBackendStack_eval stackRefs_def record_defs stringRefs_def rulesRefs_def)



section \<open>Routing and traffic boundaries\<close>

text \<open>
  Claim C1. In every constructed tree the routing records and the traffic boundary
  records agree. The target group forwards to port 8080, and 8080 is the one TCP port
  the backend security group admits from the security group of the load balancer; the
  targets of the target group are the instances of the scaling group, whose launch
  template puts them in that backend security group. The listener of the load balancer
  is on port 80, one of the ports (80 and 443) the load balancer's security group
  admits from any IPv4 source. The health check asks for the path /health and expects
  status 200 over HTTP; it names no port of its own, so it is made on the traffic port
  8080, which the backend security group admits.
\<close>

theorem C1_ports_and_health_check_agree:
  "map_of (st_children (fst (ScalableBackendStack ident props))) ''BackendTargetGroup''
       = Some (ApplicationTargetGroup targetGroup)
   \<and> map_of (st_children (fst (ScalableBackendStack ident props))) ''ApplicationLoadBalancer''
       = Some (ApplicationLoadBalancer alb)
   \<and> map_of (st_children (fst (ScalableBackendStack ident props))) ''ALBSecurityGroup''
       = Some (SecurityGroup albSecurityGroup)
   \<and> map_of (st_children (fst (ScalableBackendStack ident props))) ''BackendSecurityGroup''
       = Some (SecurityGroup backendSecurityGroup)
   \<and> map_of (st_children (fst (ScalableBackendStack ident props))) ''BackendAutoScalingGroup''
       = Some (AutoScalingGroup autoScalingGroup)
   \<and> map_of (st_children (fst (ScalableBackendStack ident props))) ''BackendLaunchTemplate''
       = Some (LaunchTemplate launchTemplate)
   \<and> alb_securityGroup alb = Ref ''ALBSecurityGroup''
   \<and> alb_listeners alb = [(''Listener'', listener)]
   \<and> lis_defaultTargetGroups listener = [Ref ''BackendTargetGroup'']
   \<and> tg_targets targetGroup = [Ref ''BackendAutoScalingGroup'']
   \<and> asg_launchTemplate autoScalingGroup = Ref ''BackendLaunchTemplate''
   \<and> lt_securityGroup launchTemplate = Ref ''BackendSecurityGroup''
   \<and> tg_port targetGroup = 8080
   \<and> admittedTcpPorts (sg_ingressRules backendSecurityGroup)
         (Peer_securityGroup (alb_securityGroup alb)) = [tg_port targetGroup]
   \<and> lis_port listener = 80
   \<and> admittedTcpPorts (sg_ingressRules albSecurityGroup) Peer_anyIpv4 = [80, 443]
   \<and> lis_port listener \<in> set (admittedTcpPorts (sg_ingressRules albSecurityGroup) Peer_anyIpv4)
   \<and> hc_enabled (tg_healthCheck targetGroup)
   \<and> hc_path (tg_healthCheck targetGroup) = ''/health''
   \<and> hc_healthyHttpCodes (tg_healthCheck targetGroup) = ''200''
   \<and> hc_protocol (tg_healthCheck targetGroup) = Protocol_HTTP
   \<and> hc_port (tg_healthCheck targetGroup) = None
   \<and> healthCheckPort targetGroup = tg_port targetGroup
   \<and> healthCheckPort targetGroup \<in> set (admittedTcpPorts (sg_ingressRules backendSecurityGroup)
         (Peer_securityGroup (alb_securityGroup alb)))"
  by (simp add: ScalableBackendStack_eval alb_def addListener_def listener_def
      targetGroup_def autoScalingGroup_def launchTemplate_def
      backendSecurityGroup_def albSecurityGroup_def addIngressRule_def admittedTcpPorts_def
      healthCheckPort_def)

section \<open>Cross-record references\<close>

text \<open>
  Claim C5. In every constructed tree the identifiers of the records are distinct and
  every reference a record holds names a record declared in the tree. In particular
  the scaling group refers to the network record and selects its private-with-egress
  subnets, of which the network record configures two; the target group of the load
  balancer's listener has the scaling group as its only target; and the database
  refers to the subnet group declared in the tree and admits, on port 5432, the
  backend security group declared in the tree.
\<close>

theorem C5_references_resolve:
  "distinct (map fst (st_children (fst (ScalableBackendStack ident props))))
   \<and> set (stackRefs (fst (ScalableBackendStack ident props)))
       \<subseteq> set (declared (fst (ScalableBackendStack ident props)))
   \<and> map_of (st_children (fst (ScalableBackendStack ident props))) ''BackendAutoScalingGroup''
       = Some (AutoScalingGroup autoScalingGroup)
   \<and> asg_vpc autoScalingGroup = Ref ''ScalableBackendVPC''
   \<and> map_of (st_children (fst (ScalableBackendStack ident props))) ''ScalableBackendVPC''
       = Some (Vpc vpc)
   \<and> sel_subnetType (asg_vpcSubnets autoScalingGroup) = PRIVATE_WITH_EGRESS
   \<and> map sc_name (filter (\<lambda>s. sc_subnetType s = sel_subnetType (asg_vpcSubnets autoScalingGroup))
         (vpc_subnetConfiguration vpc)) = [''Private-Backend'', ''Private-Clients'']
   \<and> map_of (st_children (fst (ScalableBackendStack ident props))) ''ApplicationLoadBalancer''
       = Some (ApplicationLoadBalancer alb)
   \<and> map (\<lambda>(i, l). lis_defaultTargetGroups l) (alb_listeners alb) = [[Ref ''BackendTargetGroup'']]
   \<and> map_of (st_children (fst (ScalableBackendStack ident props))) ''BackendTargetGroup''
       = Some (ApplicationTargetGroup targetGroup)
   \<and> tg_targets targetGroup = [Ref ''BackendAutoScalingGroup'']
   \<and> map_of (st_children (fst (ScalableBackendStack ident props))) ''Database''
       = Some (DatabaseInstance database)
   \<and> db_subnetGroup database = Ref ''DatabaseSubnetGroup''
   \<and> map_of (st_children (fst (ScalableBackendStack ident props))) ''DatabaseSubnetGroup''
       = Some (SubnetGroup dbSubnetGroup)
   \<and> db_connections database
       = [\<lparr>ir_peer = Peer_securityGroup (Ref ''BackendSecurityGroup''), ir_port = Port_tcp 5432,
           ir_description = None\<rparr>]
   \<and> map_of (st_children (fst (ScalableBackendStack ident props))) ''BackendSecurityGroup''
       = Some (SecurityGroup backendSecurityGroup)"
proof -
  have ids: "distinct (map fst (st_children (fst (ScalableBackendStack ident props))))"
    by (simp add: children_ids)
  have refs: "set (stackRefs (fst (ScalableBackendStack ident props)))
      \<subseteq> set (declared (fst (ScalableBackendStack ident props)))"
    by (simp add: stackRefs_eval) (simp add: declared_def ScalableBackendStack_eval)
  have rest: "map_of (st_children (fst (ScalableBackendStack ident props))) ''BackendAutoScalingGroup''
       = Some (AutoScalingGroup autoScalingGroup)
   \<and> asg_vpc autoScalingGroup = Ref ''ScalableBackendVPC''
   \<and> map_of (st_children (fst (ScalableBackendStack ident props))) ''ScalableBackendVPC''
       = Some (Vpc vpc)
   \<and> sel_subnetType (asg_vpcSubnets autoScalingGroup) = PRIVATE_WITH_EGRESS
   \<and> map sc_name (filter (\<lambda>s. sc_subnetType s = sel_subnetType (asg_vpcSubnets autoScalingGroup))
         (vpc_subnetConfiguration vpc)) = [''Private-Backend'', ''Private-Clients'']
   \<and> map_of (st_children (fst (ScalableBackendStack ident props))) ''ApplicationLoadBalancer''
       = Some (ApplicationLoadBalancer alb)
   \<and> map (\<lambda>(i, l). lis_defaultTargetGroups l) (alb_listeners alb) = [[Ref ''BackendTargetGroup'']]
   \<and> map_of (st_children (fst (ScalableBackendStack ident props))) ''BackendTargetGroup''
       = Some (ApplicationTargetGroup targetGroup)
   \<and> tg_targets targetGroup = [Ref ''BackendAutoScalingGroup'']
   \<and> map_of (st_children (fst (ScalableBackendStack ident props))) ''Database''
       = Some (DatabaseInstance database)
   \<and> db_subnetGroup database = Ref ''DatabaseSubnetGroup''
   \<and> map_of (st_children (fst (ScalableBackendStack ident props))) ''DatabaseSubnetGroup''
       = Some (SubnetGroup dbSubnetGroup)
   \<and> db_connections database
       = [\<lparr>ir_peer = Peer_securityGroup (Ref ''BackendSecurityGroup''), ir_port = Port_tcp 5432,
           ir_description = None\<rparr>]
   \<and> map_of (st_children (fst (ScalableBackendStack ident props))) ''BackendSecurityGroup''
       = Some (SecurityGroup backendSecurityGroup)"
    by (simp add: ScalableBackendStack_eval autoScalingGroup_def
        vpc_def alb_def addListener_def listener_def targetGroup_def database_def allowFrom_def)
  from ids refs rest show ?thesis by blast
qed

section \<open>Storage and database\<close>

text \<open>
  Claim C6. Every constructed tree has one storage record; it turns object versioning
  on, encrypts at rest with keys the store manages, and blocks all public access.
\<close>

theorem C6_storage_record:
  "buckets (fst (ScalableBackendStack ident props)) = [dataBucket]
   \<and> map_of (st_children (fst (ScalableBackendStack ident props))) ''DataBucket''
       = Some (Bucket dataBucket)
   \<and> bk_versioned dataBucket
   \<and> bk_encryption dataBucket = S3_MANAGED
   \<and> bk_blockPublicAccess dataBucket = BLOCK_ALL"
  by (simp add: ScalableBackendStack_eval buckets_def dataBucket_def grantReadWrite_def)

text \<open>
  Claim C9. The two persistent-data records of every constructed tree, the storage
  bucket and the database, both carry the removal policy that destroys them on
  teardown, and the database has deletion protection and multi-AZ deployment off.
\<close>

theorem C9_destroyed_on_teardown:
  "buckets (fst (ScalableBackendStack ident props)) = [dataBucket]
   \<and> databaseInstances (fst (ScalableBackendStack ident props)) = [database]
   \<and> bk_removalPolicy dataBucket = DESTROY
   \<and> db_removalPolicy database = DESTROY
   \<and> db_deletionProtection database = False
   \<and> db_multiAz database = False"
  by (simp add: ScalableBackendStack_eval buckets_def databaseInstances_def
      dataBucket_def grantReadWrite_def database_def allowFrom_def)

section \<open>Compute scaling\<close>

text \<open>
  Claim C2, on the code. For every identifier and properties the constructor raises
  the \<^verbatim>\<open>TypeError\<close> of line 276. The one compute scaling record it leaves names
  the launch template declared in the tree, has minimum 2, desired 3 and maximum 10
  instances and a load-balancer health check with a grace period of five minutes, but it
  has no scaling policy: the calls of \<^verbatim>\<open>scaleOnMetric\<close> on lines 283 and 292, which
  would give it the scale-up and the scale-down policy, are not reached.
\<close>

theorem C2_scaling_policies_never_attached:
  "snd (ScalableBackendStack ident props)
       = Some (TypeError ''autoScalingGroup.metricCpuUtilization is not a function'')
   \<and> autoScalingGroups (fst (ScalableBackendStack ident props)) = [autoScalingGroup]
   \<and> asg_scalingPolicies autoScalingGroup = []
   \<and> asg_launchTemplate autoScalingGroup = Ref ''BackendLaunchTemplate''
   \<and> map_of (st_children (fst (ScalableBackendStack ident props))) ''BackendLaunchTemplate''
       = Some (LaunchTemplate launchTemplate)
   \<and> asg_minCapacity autoScalingGroup = 2
   \<and> asg_desiredCapacity autoScalingGroup = 3
   \<and> asg_maxCapacity autoScalingGroup = 10
   \<and> asg_healthCheck autoScalingGroup = HealthCheck_elb (Duration_minutes 5)"
  by (simp add: ScalableBackendStack_eval autoScalingGroups_def autoScalingGroup_def)

text \<open>
  Claim C8, on the code. The properties written for the scale-up policy hold the two
  steps (below 50: change 1) and (from 80: change 2), those written for the scale-down
  policy the one step (below 30: change -1), both as changes in capacity. Neither
  policy is constructed: the constructor raises the \<^verbatim>\<open>TypeError\<close> of line 276 before
  it reaches them, and the scaling groups of the tree it leaves have no policy. Given
  a metric, \<^verbatim>\<open>scaleOnMetric\<close> would attach the scale-up policy to the group and
  would then refuse the scale-down policy, whose step list has one interval.
\<close>

theorem C8_step_policies_not_constructed:
  "snd (ScalableBackendStack ident props)
       = Some (TypeError ''autoScalingGroup.metricCpuUtilization is not a function'')
   \<and> map asg_scalingPolicies (autoScalingGroups (fst (ScalableBackendStack ident props))) = [[]]
   \<and> pol_scalingSteps (scaleUpPolicy m)
       = [\<lparr>si_lower = None, si_upper = Some 50, si_change = 1\<rparr>,
          \<lparr>si_lower = Some 80, si_upper = None, si_change = 2\<rparr>]
   \<and> pol_scalingSteps (scaleDownPolicy m)
       = [\<lparr>si_lower = None, si_upper = Some 30, si_change = - 1\<rparr>]
   \<and> pol_adjustmentType (scaleUpPolicy m) = CHANGE_IN_CAPACITY
   \<and> pol_adjustmentType (scaleDownPolicy m) = CHANGE_IN_CAPACITY
   \<and> scaleOnMetric ''ScaleUpPolicy'' (scaleUpPolicy m) autoScalingGroup
       = Inr (autoScalingGroup\<lparr>asg_scalingPolicies := [(''ScaleUpPolicy'', scaleUpPolicy m)]\<rparr>)
   \<and> scaleOnMetric ''ScaleDownPolicy'' (scaleDownPolicy m)
         (autoScalingGroup\<lparr>asg_scalingPolicies := [(''ScaleUpPolicy'', scaleUpPolicy m)]\<rparr>)
       = Inl (TooFewIntervals 1)"
  by (simp add: ScalableBackendStack_eval autoScalingGroups_def autoScalingGroup_def
      scaleUpPolicy_def scaleDownPolicy_def scaleOnMetric_def)

section \<open>Observability\<close>

text \<open>
  Claim C10, on the code. The properties written for the high-CPU alarm have threshold
  80, two evaluation periods, missing data treated as not breaching, and no alarm
  action. The alarm is not created: the constructor raises the \<^verbatim>\<open>TypeError\<close> of line
  276 while it evaluates these properties, and the tree it leaves has no record named
  HighCPUAlarm. The dashboard is in the tree, with the name ScalableBackendMonitoring
  and no widget, and no record of the tree refers to it.
\<close>

theorem C10_alarm_never_created:
  "snd (ScalableBackendStack ident props)
       = Some (TypeError ''autoScalingGroup.metricCpuUtilization is not a function'')
   \<and> map_of (st_children (fst (ScalableBackendStack ident props))) ''HighCPUAlarm'' = None
   \<and> ''HighCPUAlarm'' \<notin> set (map fst (st_children (fst (ScalableBackendStack ident props))))
   \<and> alarm_metric (cpuAlarm m) = m
   \<and> alarm_threshold (cpuAlarm m) = 80
   \<and> alarm_evaluationPeriods (cpuAlarm m) = 2
   \<and> alarm_treatMissingData (cpuAlarm m) = NOT_BREACHING
   \<and> alarm_alarmActions (cpuAlarm m) = []
   \<and> map_of (st_children (fst (ScalableBackendStack ident props))) ''ScalableBackendDashboard''
       = Some (Dashboard dashboard)
   \<and> dash_dashboardName dashboard = ''ScalableBackendMonitoring''
   \<and> dash_widgets dashboard = []
   \<and> Ref ''ScalableBackendDashboard'' \<notin> set (stackRefs (fst (ScalableBackendStack ident props)))"
proof -
  have refs: "Ref ''ScalableBackendDashboard'' \<notin> set (stackRefs (fst (ScalableBackendStack ident props)))"
    by (simp add: stackRefs_eval)
  have ids: "''HighCPUAlarm'' \<notin> set (map fst (st_children (fst (ScalableBackendStack ident props))))"
    by (simp add: children_ids)
  have rest: "snd (ScalableBackendStack ident props)
       = Some (TypeError ''autoScalingGroup.metricCpuUtilization is not a function'')
   \<and> map_of (st_children (fst (ScalableBackendStack ident props))) ''HighCPUAlarm'' = None
   \<and> alarm_metric (cpuAlarm m) = m
   \<and> alarm_threshold (cpuAlarm m) = 80
   \<and> alarm_evaluationPeriods (cpuAlarm m) = 2
   \<and> alarm_treatMissingData (cpuAlarm m) = NOT_BREACHING
   \<and> alarm_alarmActions (cpuAlarm m) = []
   \<and> map_of (st_children (fst (ScalableBackendStack ident props))) ''ScalableBackendDashboard''
       = Some (Dashboard dashboard)
   \<and> dash_dashboardName dashboard = ''ScalableBackendMonitoring''
   \<and> dash_widgets dashboard = []"
    by (simp add: ScalableBackendStack_eval cpuAlarm_def dashboard_def)
  from refs ids rest show ?thesis by blast
qed

section \<open>The entry point and its outputs\<close>







end
